theory Spec2Isabelle
  imports Complex_Main
begin

section \<open>JavaScript numbers\<close>

text \<open>
  The analysis code computes with JavaScript numbers. The model takes a number to be
  either a real or \<open>NaN\<close>: arithmetic is exact (no rounding, no overflow), an
  operation with a \<open>NaN\<close> operand yields \<open>NaN\<close>, and a division by zero, which in
  JavaScript gives an infinity or \<open>NaN\<close>, yields \<open>NaN\<close> as well (the model has no
  infinite values). The relational operators are false as soon as one operand is
  \<open>NaN\<close>, equality included. A property that is \<open>undefined\<close> reads as \<open>NaN\<close> wherever
  the code only computes or compares with it.
\<close>

datatype number = Num real | NaN

instantiation number :: "{zero, one, plus, minus, uminus, times, inverse, ord}"
begin

definition zero_number :: number where
  "zero_number = Num 0"

definition one_number :: number where
  "one_number = Num 1"

fun plus_number :: "number \<Rightarrow> number \<Rightarrow> number" where
  "plus_number (Num a) (Num b) = Num (a + b)"
| "plus_number _ _ = NaN"

fun minus_number :: "number \<Rightarrow> number \<Rightarrow> number" where
  "minus_number (Num a) (Num b) = Num (a - b)"
| "minus_number _ _ = NaN"

fun uminus_number :: "number \<Rightarrow> number" where
  "uminus_number (Num a) = Num (- a)"
| "uminus_number NaN = NaN"

fun times_number :: "number \<Rightarrow> number \<Rightarrow> number" where
  "times_number (Num a) (Num b) = Num (a * b)"
| "times_number _ _ = NaN"

fun divide_number :: "number \<Rightarrow> number \<Rightarrow> number" where
  "divide_number (Num a) (Num b) = (if b = 0 then NaN else Num (a / b))"
| "divide_number _ _ = NaN"

fun inverse_number :: "number \<Rightarrow> number" where
  "inverse_number (Num a) = (if a = 0 then NaN else Num (1 / a))"
| "inverse_number NaN = NaN"

fun less_eq_number :: "number \<Rightarrow> number \<Rightarrow> bool" where
  "less_eq_number (Num a) (Num b) = (a \<le> b)"
| "less_eq_number _ _ = False"

fun less_number :: "number \<Rightarrow> number \<Rightarrow> bool" where
  "less_number (Num a) (Num b) = (a < b)"
| "less_number _ _ = False"

instance ..

end

instance number :: semigroup_add
proof
  fix a b c :: number
  show "a + b + c = a + (b + c)"
    by (cases a; cases b; cases c) simp_all
qed

instance number :: numeral ..

instance number :: power ..

text \<open>The equality operators \<open>==\<close> and \<open>===\<close> on two numbers.\<close>

fun js_eq :: "number \<Rightarrow> number \<Rightarrow> bool" where
  "js_eq (Num a) (Num b) = (a = b)"
| "js_eq _ _ = False"

text \<open>A truth value used as a number: \<open>true\<close> is 1 and \<open>false\<close> is 0.\<close>

definition bool_number :: "bool \<Rightarrow> number" where
  "bool_number p = (if p then 1 else 0)"

subsection \<open>\<open>toFixed(2)\<close>\<close>

text \<open>
  \<open>Number.prototype.toFixed\<close> with two fraction digits: \<open>NaN\<close> prints as \<open>NaN\<close>; a
  number below \<open>10^21\<close> in magnitude prints its sign and the integer \<open>n\<close> nearest to a
  hundred times its magnitude (the larger one of two equally near), with the point before
  the last two digits, padded with zeros to three digits. From \<open>10^21\<close> on JavaScript
  prints the digits of the floating-point value in exponential notation; the model does
  not spell them out and keeps the number under \<open>Exponential\<close>.
\<close>

datatype yvalue = Number number | Text string | Exponential real

definition digit :: "nat \<Rightarrow> char" where
  "digit d = ''0123456789'' ! d"

fun decimal :: "nat \<Rightarrow> string" where
  "decimal n = (if n < 10 then [digit n] else decimal (n div 10) @ [digit (n mod 10)])"

declare decimal.simps [simp del]

definition fixed2 :: "real \<Rightarrow> string" where
  "fixed2 a =
     (let n = nat \<lfloor>a * 100 + 1 / 2\<rfloor>;
          m = decimal n;
          m = (if length m \<le> 2 then replicate (3 - length m) (CHR ''0'') @ m else m);
          k = length m
      in take (k - 2) m @ ''.'' @ drop (k - 2) m)"

fun toFixed2 :: "number \<Rightarrow> yvalue" where
  "toFixed2 NaN = Text ''NaN''"
| "toFixed2 (Num v) =
     (if \<bar>v\<bar> \<ge> 10 ^ 21 then Exponential v
      else Text ((if v < 0 then ''-'' else '''') @ fixed2 \<bar>v\<bar>))"

section \<open>Beam analysis data types\<close>

text \<open>
  \<open>Material\<close> and \<open>Beam\<close> are the two data classes of \<open>beam-analysis.js\<close>. The
  properties of a material are an object from property names to numbers. The structured
  two-span functions read the spans as \<open>beam.L1\<close> and \<open>beam.L2\<close>, which the class
  \<open>Beam\<close> does not set: the record carries them as fields of their own, \<open>NaN\<close> for a
  beam that has no such property.
\<close>

record Material =
  name :: string
  properties :: "string \<rightharpoonup> number"

record Beam =
  primarySpan :: number
  secondarySpan :: number
  material :: Material
  L1 :: number
  L2 :: number

text \<open>
  A load is a number (the uniform load of the scalar functions) or an object
  \<open>{w1, w2, R1, R2, R3}\<close> (the structured two-span functions).
\<close>

record StructuredLoad =
  w1 :: number
  w2 :: number
  R1 :: number
  R2 :: number
  R3 :: number

datatype Load = Scalar number | Structured StructuredLoad

text \<open>
  \<open>const w = load\<close> used in arithmetic: an object converts to \<open>NaN\<close>.
\<close>

fun toNumber :: "Load \<Rightarrow> number" where
  "toNumber (Scalar w) = w"
| "toNumber (Structured s) = NaN"

text \<open>
  \<open>const { w1, w2, R1, R2, R3 } = load\<close>: a number has none of the five properties,
  each is \<open>undefined\<close> and computes as \<open>NaN\<close>.
\<close>

fun destructure :: "Load \<Rightarrow> StructuredLoad" where
  "destructure (Structured s) = s"
| "destructure (Scalar w) = \<lparr>w1 = NaN, w2 = NaN, R1 = NaN, R2 = NaN, R3 = NaN\<rparr>"

fun is_object :: "Load \<Rightarrow> bool" where
  "is_object (Structured s) = True"
| "is_object (Scalar w) = False"

text \<open>\<open>beam.material.properties.EI\<close>.\<close>

definition EI_of :: "Beam \<Rightarrow> number" where
  "EI_of b = (case properties (material b) ''EI'' of Some v \<Rightarrow> v | None \<Rightarrow> NaN)"

text \<open>
  An evaluator returns the point \<open>{x, y}\<close> or throws. \<open>floatVal\<close> is a global function the
  repository does not define; it is a parameter of the model, passed to the code that
  calls it at the moment of the call.
\<close>

datatype js_error = Error string | TypeError

record point =
  x :: number
  y :: yvalue

type_synonym evaluator = "(string \<Rightarrow> number) \<Rightarrow> number \<Rightarrow> js_error + point"

record AnalysisResult =
  beam :: Beam
  load :: Load
  equation :: evaluator

section \<open>The simply supported analyzer\<close>

definition simplySupported_getDeflectionEquation :: "Beam \<Rightarrow> Load \<Rightarrow> evaluator" where
  "simplySupported_getDeflectionEquation = (\<lambda>beam load.
     let primarySpan = primarySpan beam;
         EI = EI_of beam
     in (\<lambda>floatVal x.
       let L = primarySpan;
           w = toNumber load;
           y = (if x \<ge> 0 \<and> x \<le> L
                then - ((w * x) / (24 * EI)) * (L ^ 3 - 2 * L * x ^ 2 + x ^ 3) * 1000
                else 0)
       in Inr \<lparr>x = x, y = Number y\<rparr>))"

definition simplySupported_getBendingMomentEquation :: "Beam \<Rightarrow> Load \<Rightarrow> evaluator" where
  "simplySupported_getBendingMomentEquation = (\<lambda>beam load.
     let primarySpan = primarySpan beam
     in (\<lambda>floatVal x.
       let L = primarySpan;
           w = toNumber load;
           M = (if x \<ge> 0 \<and> x \<le> L then - ((w * x) / 2) * (L - x) else 0)
       in Inr \<lparr>x = x, y = Number M\<rparr>))"

definition simplySupported_getShearForceEquation :: "Beam \<Rightarrow> Load \<Rightarrow> evaluator" where
  "simplySupported_getShearForceEquation = (\<lambda>beam load.
     let primarySpan = primarySpan beam
     in (\<lambda>floatVal x.
       let L = primarySpan;
           w = toNumber load;
           V = (if x \<ge> 0 \<and> x \<le> L then w * ((L / 2) - x) else 0)
       in Inr \<lparr>x = x, y = Number V\<rparr>))"

section \<open>The two-span analyzer\<close>

text \<open>
  The source holds the module twice. The two copies, revision A and revision B below,
  differ in the class \<open>twoSpanUnequal\<close> only: revision A computes deflection and shear
  force from a scalar load and the spans \<open>primarySpan\<close> and \<open>secondarySpan\<close>, revision B
  computes them from a structured load and the spans \<open>L1\<close> and \<open>L2\<close>. The bending moment
  is the same structured-load function in both.
\<close>

subsection \<open>Reactions of the scalar-load path\<close>

text \<open>
  The interior support moment and the three reactions, as both scalar-load functions of
  revision A compute them from the load \<open>w\<close> and the spans.
\<close>

definition scalar_M1 :: "number \<Rightarrow> number \<Rightarrow> number \<Rightarrow> number" where
  "scalar_M1 = (\<lambda>w L1 L2. (((w * L2 ^ 3) + (w * L1 ^ 3)) / (8 * (L1 + L2))) * - 1)"

definition scalar_R1 :: "number \<Rightarrow> number \<Rightarrow> number \<Rightarrow> number" where
  "scalar_R1 = (\<lambda>w L1 L2. let M1 = scalar_M1 w L1 L2 in (M1 / L1) + ((w * L1) / 2))"

definition scalar_R3 :: "number \<Rightarrow> number \<Rightarrow> number \<Rightarrow> number" where
  "scalar_R3 = (\<lambda>w L1 L2. let M1 = scalar_M1 w L1 L2 in (M1 / L2) + ((w * L2) / 2))"

definition scalar_R2 :: "number \<Rightarrow> number \<Rightarrow> number \<Rightarrow> number" where
  "scalar_R2 = (\<lambda>w L1 L2.
     let R1 = scalar_R1 w L1 L2;
         R3 = scalar_R3 w L1 L2
     in w * L1 + w * L2 - R1 - R3)"

subsection \<open>Revision A: deflection and shear force from a scalar load\<close>

definition twoSpanUnequal_getDeflectionEquation_A :: "Beam \<Rightarrow> Load \<Rightarrow> evaluator" where
  "twoSpanUnequal_getDeflectionEquation_A = (\<lambda>beam load.
     (\<lambda>floatVal x.
       let j2 = floatVal ''j2'';
           L1 = primarySpan beam;
           L2 = secondarySpan beam;
           w = toNumber load;
           M1 = scalar_M1 w L1 L2;
           R1 = scalar_R1 w L1 L2;
           R3 = scalar_R3 w L1 L2;
           R2 = scalar_R2 w L1 L2;
           EI = EI_of beam / 1000000000;
           V = (if x \<le> L1
                then x / 24 * (EI / 1000 ^ 3)
                       * ((4 * R1 * x ^ 2) - (w * x ^ 3) + (w * L1 ^ 3) - (4 * R1 * L1 ^ 2))
                       * (1000 * j2)
                else if L1 \<le> L1 + L2
                then (((R1 * x) / 6) * (x ^ 2 - L1 ^ 2)
                       + ((R2 * x) / 6) * (x ^ 2 - (3 * L1 * x) + (3 * L1 ^ 2))
                       - ((R2 * L1 ^ 3) / 6)
                       - ((w * x) / 24) * (x ^ 3 - L1 ^ 3))
                     * (1 / (EI / 1000 ^ 3)) * (1000 * j2)
                else 0)
       in Inr \<lparr>x = x, y = Number V\<rparr>))"

text \<open>
  The shear force function selects one of six assignments by a chain of guards. The fifth
  guard is the chained comparison \<open>L1 < x < L\<close>, which JavaScript reads as
  \<open>(L1 < x) < L\<close>: the truth value of \<open>L1 < x\<close>, as a number, compared with \<open>L\<close>.
\<close>

datatype shear_branch = At_zero | Below_L1 | At_L1 | At_L2 | Chained | At_L | No_branch

definition shear_guard_A :: "number \<Rightarrow> number \<Rightarrow> number \<Rightarrow> number \<Rightarrow> shear_branch" where
  "shear_guard_A = (\<lambda>L1 L2 L x.
     if js_eq x 0 then At_zero
     else if x < L1 then Below_L1
     else if js_eq x L1 then At_L1
     else if js_eq x L2 then At_L2
     else if bool_number (L1 < x) < L then Chained
     else if js_eq x L then At_L
     else No_branch)"

fun shear_assign_A ::
  "shear_branch \<Rightarrow> number \<Rightarrow> number \<Rightarrow> number \<Rightarrow> number \<Rightarrow> number \<Rightarrow> number \<Rightarrow> number" where
  "shear_assign_A At_zero r1 r2 w l1 l t = r1"
| "shear_assign_A Below_L1 r1 r2 w l1 l t = r1 - w * t"
| "shear_assign_A At_L1 r1 r2 w l1 l t = r1 - (w * l1)"
| "shear_assign_A At_L2 r1 r2 w l1 l t = r1 + r2 - (w * l1)"
| "shear_assign_A Chained r1 r2 w l1 l t = r1 + r2 - (w * t)"
| "shear_assign_A At_L r1 r2 w l1 l t = r1 + r2 - (w * l)"
| "shear_assign_A No_branch r1 r2 w l1 l t = 0"

definition twoSpanUnequal_getShearForceEquation_A ::
  "(string \<Rightarrow> number) \<Rightarrow> Beam \<Rightarrow> Load \<Rightarrow> evaluator" where
  "twoSpanUnequal_getShearForceEquation_A = (\<lambda>floatVal0 beam load.
     let j2 = floatVal0 ''j2'' * 1000;
         L1 = primarySpan beam;
         L2 = secondarySpan beam;
         w = toNumber load;
         M1 = scalar_M1 w L1 L2;
         R1 = scalar_R1 w L1 L2;
         R3 = scalar_R3 w L1 L2;
         R2 = scalar_R2 w L1 L2;
         EI = EI_of beam;
         L = L1 + L2
     in (\<lambda>floatVal x.
       let V = shear_assign_A (shear_guard_A L1 L2 L x) R1 R2 w L1 L x
       in Inr \<lparr>x = x, y = Number V\<rparr>))"

subsection \<open>The bending moment, in both revisions\<close>

definition moment_first :: "number \<Rightarrow> number \<Rightarrow> number \<Rightarrow> number" where
  "moment_first = (\<lambda>R1 w1 x. R1 * x - (w1 * x ^ 2) / 2)"

definition moment_second ::
  "number \<Rightarrow> number \<Rightarrow> number \<Rightarrow> number \<Rightarrow> number \<Rightarrow> number \<Rightarrow> number" where
  "moment_second = (\<lambda>R1 R2 w1 w2 L1 x.
     let x2 = x - L1
     in R1 * x + R2 * x2 - (w1 * L1 ^ 2) / 2 - (w2 * x2 ^ 2) / 2)"

definition twoSpanUnequal_getBendingMomentEquation :: "Beam \<Rightarrow> Load \<Rightarrow> evaluator" where
  "twoSpanUnequal_getBendingMomentEquation = (\<lambda>beam load.
     let L1 = L1 beam;
         L2 = L2 beam;
         s = destructure load;
         w1 = w1 s; w2 = w2 s; R1 = R1 s; R2 = R2 s; R3 = R3 s
     in (\<lambda>floatVal x.
       let M = (if js_eq x 0 then 0
                else if x > 0 \<and> x \<le> L1 then moment_first R1 w1 x
                else if x > L1 \<and> x \<le> L1 + L2 then moment_second R1 R2 w1 w2 L1 x
                else if x > L1 + L2 then 0
                else 0)
       in Inr \<lparr>x = x, y = toFixed2 M\<rparr>))"

subsection \<open>Revision B: deflection and shear force from a structured load\<close>

text \<open>
  At \<open>x = 0\<close> both functions assign \<open>R1\<close> itself; when the load is a number, \<open>R1\<close> is
  \<open>undefined\<close> and the call of \<open>toFixed\<close> on it throws a \<open>TypeError\<close>.
\<close>

definition twoSpanUnequal_getDeflectionEquation_B :: "Beam \<Rightarrow> Load \<Rightarrow> evaluator" where
  "twoSpanUnequal_getDeflectionEquation_B = (\<lambda>beam load.
     let L1 = L1 beam;
         L2 = L2 beam;
         s = destructure load;
         w1 = w1 s; w2 = w2 s; R1 = R1 s; R2 = R2 s; R3 = R3 s
     in (\<lambda>floatVal x.
       let V = (if js_eq x 0 then R1
                else if x > 0 \<and> x \<le> L1 then R1 - w1 * x
                else if x > L1 \<and> x \<le> L1 + L2 then
                  (let x2 = x - L1 in R1 + R2 - w1 * L1 - w2 * x2)
                else if x > L1 + L2 then R1 + R2 + R3 - w1 * L1 - w2 * L2
                else 0)
       in if js_eq x 0 \<and> \<not> is_object load then Inl TypeError
          else Inr \<lparr>x = x, y = toFixed2 V\<rparr>))"

definition twoSpanUnequal_getShearForceEquation_B :: "Beam \<Rightarrow> Load \<Rightarrow> evaluator" where
  "twoSpanUnequal_getShearForceEquation_B = (\<lambda>beam load.
     let L1 = L1 beam;
         L2 = L2 beam;
         s = destructure load;
         w1 = w1 s; w2 = w2 s; R1 = R1 s; R2 = R2 s; R3 = R3 s
     in (\<lambda>floatVal x.
       let V = (if js_eq x 0 then R1
                else if x > 0 \<and> x \<le> L1 then R1 - (w1 * x)
                else if x > L1 \<and> x \<le> L1 + L2 then R1 + R2 - (w1 * L1) - (w2 * (x - L1))
                else if x > L1 + L2 then R1 + R2 + R3 - (w1 * L1) - (w2 * L2)
                else 0)
       in if js_eq x 0 \<and> \<not> is_object load then Inl TypeError
          else Inr \<lparr>x = x, y = toFixed2 V\<rparr>))"

section \<open>The dispatcher\<close>

text \<open>
  \<open>this.analyzer\<close> is an object literal with the two analyzers as its own properties.
  \<open>this.analyzer[condition]\<close> is a property read: for a name the object does not own it
  goes on to \<open>Object.prototype\<close>, whose properties are functions (and, for
  \<open>__proto__\<close>, the prototype object), all of them truthy and none with a
  \<open>get...Equation\<close> method. Any other name reads as \<open>undefined\<close>. A truthy value
  without the method makes the method call throw a \<open>TypeError\<close>; \<open>undefined\<close> leads to
  \<open>throw new Error('Invalid condition')\<close>. Each operation takes the global \<open>floatVal\<close> of the
  moment it is called; only \<open>getShearForceEquation\<close> of revision A calls it while the
  evaluator is built.
\<close>

datatype revision = Revision_A | Revision_B

datatype analyzer = simplySupported | twoSpanUnequal

datatype property = Own analyzer | Inherited | Undefined

definition Object_prototype :: "string list" where
  "Object_prototype =
     [''constructor'', ''hasOwnProperty'', ''isPrototypeOf'', ''propertyIsEnumerable'',
      ''toLocaleString'', ''toString'', ''valueOf'', ''__proto__'',
      ''__defineGetter__'', ''__defineSetter__'', ''__lookupGetter__'', ''__lookupSetter__'']"

definition analyzer_property :: "string \<Rightarrow> property" where
  "analyzer_property condition =
     (if condition = ''simply-supported'' then Own simplySupported
      else if condition = ''two-span-unequal'' then Own twoSpanUnequal
      else if condition \<in> set Object_prototype then Inherited
      else Undefined)"

fun getDeflectionEquation :: "revision \<Rightarrow> analyzer \<Rightarrow> Beam \<Rightarrow> Load \<Rightarrow> evaluator" where
  "getDeflectionEquation r simplySupported = simplySupported_getDeflectionEquation"
| "getDeflectionEquation Revision_A twoSpanUnequal = twoSpanUnequal_getDeflectionEquation_A"
| "getDeflectionEquation Revision_B twoSpanUnequal = twoSpanUnequal_getDeflectionEquation_B"

fun getBendingMomentEquation :: "revision \<Rightarrow> analyzer \<Rightarrow> Beam \<Rightarrow> Load \<Rightarrow> evaluator" where
  "getBendingMomentEquation r simplySupported = simplySupported_getBendingMomentEquation"
| "getBendingMomentEquation r twoSpanUnequal = twoSpanUnequal_getBendingMomentEquation"

fun getShearForceEquation ::
  "revision \<Rightarrow> (string \<Rightarrow> number) \<Rightarrow> analyzer \<Rightarrow> Beam \<Rightarrow> Load \<Rightarrow> evaluator" where
  "getShearForceEquation r fv simplySupported = simplySupported_getShearForceEquation"
| "getShearForceEquation Revision_A fv twoSpanUnequal = twoSpanUnequal_getShearForceEquation_A fv"
| "getShearForceEquation Revision_B fv twoSpanUnequal = twoSpanUnequal_getShearForceEquation_B"

definition getDeflection ::
  "revision \<Rightarrow> (string \<Rightarrow> number) \<Rightarrow> Beam \<Rightarrow> Load \<Rightarrow> string \<Rightarrow> js_error + AnalysisResult" where
  "getDeflection r floatVal = (\<lambda>beam load condition.
     case analyzer_property condition of
       Own analyzer \<Rightarrow>
         Inr \<lparr>beam = beam, load = load, equation = getDeflectionEquation r analyzer beam load\<rparr>
     | Inherited \<Rightarrow> Inl TypeError
     | Undefined \<Rightarrow> Inl (Error ''Invalid condition''))"

definition getBendingMoment ::
  "revision \<Rightarrow> (string \<Rightarrow> number) \<Rightarrow> Beam \<Rightarrow> Load \<Rightarrow> string \<Rightarrow> js_error + AnalysisResult" where
  "getBendingMoment r floatVal = (\<lambda>beam load condition.
     case analyzer_property condition of
       Own analyzer \<Rightarrow>
         Inr \<lparr>beam = beam, load = load, equation = getBendingMomentEquation r analyzer beam load\<rparr>
     | Inherited \<Rightarrow> Inl TypeError
     | Undefined \<Rightarrow> Inl (Error ''Invalid condition''))"

definition getShearForce ::
  "revision \<Rightarrow> (string \<Rightarrow> number) \<Rightarrow> Beam \<Rightarrow> Load \<Rightarrow> string \<Rightarrow> js_error + AnalysisResult" where
  "getShearForce r floatVal = (\<lambda>beam load condition.
     case analyzer_property condition of
       Own analyzer \<Rightarrow>
         Inr \<lparr>beam = beam, load = load,
              equation = getShearForceEquation r floatVal analyzer beam load\<rparr>
     | Inherited \<Rightarrow> Inl TypeError
     | Undefined \<Rightarrow> Inl (Error ''Invalid condition''))"

section \<open>Example inputs\<close>

text \<open>
  The beam of the specification's test section (\<open>L = 4\<close>, \<open>EI = 5000\<close>, load \<open>10\<close>), with a
  second span of 3 and a structured load in equilibrium; a beam with two unit spans whose
  stiffness cancels the scaling constants; and three versions of \<open>floatVal\<close>.
\<close>

definition example_material :: Material where
  "example_material = \<lparr>name = ''timber'', properties = [''EI'' \<mapsto> 5000]\<rparr>"

definition example_beam :: Beam where
  "example_beam =
     \<lparr>primarySpan = 4, secondarySpan = 3, material = example_material, L1 = 4, L2 = 3\<rparr>"

definition example_load :: StructuredLoad where
  "example_load = \<lparr>w1 = 10, w2 = 10, R1 = 16, R2 = 44, R3 = 10\<rparr>"

definition unit_beam :: Beam where
  "unit_beam =
     \<lparr>primarySpan = 1, secondarySpan = 1,
      material = \<lparr>name = ''unit'', properties = [''EI'' \<mapsto> 10 ^ 18]\<rparr>, L1 = 1, L2 = 1\<rparr>"

definition floatVal_one :: "string \<Rightarrow> number" where
  "floatVal_one k = (if k = ''j2'' then 1 else NaN)"

definition floatVal_two :: "string \<Rightarrow> number" where
  "floatVal_two k = (if k = ''j2'' then 2 else NaN)"

definition floatVal_alt :: "string \<Rightarrow> number" where
  "floatVal_alt k = (if k = ''j2'' then 1 else 0)"

definition example_result :: AnalysisResult where
  "example_result =
     \<lparr>beam = unit_beam, load = Scalar 1,
      equation = twoSpanUnequal_getDeflectionEquation_A unit_beam (Scalar 1)\<rparr>"

section \<open>Arithmetic on numerals\<close>

lemma zero_number_Num: "(0::number) = Num 0"
  by (simp add: zero_number_def)

lemma one_number_Num: "(1::number) = Num 1"
  by (simp add: one_number_def)

lemma numeral_number_Num: "(numeral k :: number) = Num (numeral k)"
proof (induction k)
  case One
  show ?case by (simp only: numeral.simps one_number_def)
next
  case (Bit0 k)
  have "(numeral (num.Bit0 k) :: number) = numeral k + numeral k"
    by (simp only: numeral.simps)
  also have "\<dots> = Num (numeral k + numeral k)"
    by (simp only: Bit0.IH plus_number.simps)
  also have "\<dots> = Num (numeral (num.Bit0 k))"
    by (simp only: numeral.simps)
  finally show ?case .
next
  case (Bit1 k)
  have "(numeral (num.Bit1 k) :: number) = numeral k + numeral k + 1"
    by (simp only: numeral.simps)
  also have "\<dots> = Num (numeral k + numeral k + 1)"
    by (simp only: Bit1.IH plus_number.simps one_number_def)
  also have "\<dots> = Num (numeral (num.Bit1 k))"
    by (simp only: numeral.simps)
  finally show ?case .
qed

lemma power_number_Num: "Num a ^ n = Num (a ^ n)"
  by (induction n) (simp_all add: one_number_def)

lemmas number_simps = zero_number_Num one_number_Num numeral_number_Num power_number_Num

lemmas simplySupported_defs =
  simplySupported_getDeflectionEquation_def simplySupported_getBendingMomentEquation_def
  simplySupported_getShearForceEquation_def

lemmas twoSpanUnequal_defs =
  twoSpanUnequal_getDeflectionEquation_A_def twoSpanUnequal_getShearForceEquation_A_def
  twoSpanUnequal_getBendingMomentEquation_def twoSpanUnequal_getDeflectionEquation_B_def
  twoSpanUnequal_getShearForceEquation_B_def

lemmas scalar_defs = scalar_M1_def scalar_R1_def scalar_R2_def scalar_R3_def

lemmas dispatcher_defs = getDeflection_def getBendingMoment_def getShearForce_def

lemmas example_defs =
  example_material_def example_beam_def example_load_def unit_beam_def
  floatVal_one_def floatVal_two_def floatVal_alt_def

lemmas power_small = power2_eq_square power3_eq_cube

section \<open>The dispatcher: conditions\<close>

text \<open>
  Claim C1 says that every condition other than the two registered names makes each of the
  three operations fail with the \<open>Invalid condition\<close> error. The name \<open>toString\<close> is not
  registered, the object \<open>this.analyzer\<close> inherits a property of that name, and each
  operation fails with a \<open>TypeError\<close> instead, in both revisions and for every beam and load.
\<close>

theorem inherited_condition_TypeError:
  fixes beam :: Beam and load :: Load
  shows "getDeflection r floatVal beam load ''toString'' = Inl TypeError
       \<and> getBendingMoment r floatVal beam load ''toString'' = Inl TypeError
       \<and> getShearForce r floatVal beam load ''toString'' = Inl TypeError
       \<and> TypeError \<noteq> Error ''Invalid condition''"
  by (simp add: dispatcher_defs analyzer_property_def Object_prototype_def)

theorem inherited_condition_TypeError_witness:
  "getDeflection Revision_A floatVal_one example_beam (Scalar 10) ''toString'' = Inl TypeError
   \<and> getBendingMoment Revision_B floatVal_one example_beam (Structured example_load) ''toString''
       = Inl TypeError
   \<and> getShearForce Revision_A floatVal_one example_beam (Scalar 10) ''toString'' = Inl TypeError"
  using inherited_condition_TypeError [where r = Revision_A and floatVal = floatVal_one
      and beam = example_beam and load = "Scalar 10"]
    inherited_condition_TypeError [where r = Revision_B and floatVal = floatVal_one
      and beam = example_beam and load = "Structured example_load"]
  by simp

text \<open>
  What does hold: a name that is neither registered nor a property of \<open>Object.prototype\<close>
  fails with \<open>Invalid condition\<close> in all three operations.
\<close>

lemma unknown_condition_Invalid:
  fixes beam :: Beam and load :: Load
  assumes "condition \<noteq> ''simply-supported''" and "condition \<noteq> ''two-span-unequal''"
    and "condition \<notin> set Object_prototype"
  shows "getDeflection r floatVal beam load condition = Inl (Error ''Invalid condition'')
       \<and> getBendingMoment r floatVal beam load condition = Inl (Error ''Invalid condition'')
       \<and> getShearForce r floatVal beam load condition = Inl (Error ''Invalid condition'')"
  using assms by (simp add: dispatcher_defs analyzer_property_def)

lemma unknown_condition_Invalid_witness:
  "getDeflection Revision_A floatVal_one example_beam (Scalar 10) ''unknown''
     = Inl (Error ''Invalid condition'')
   \<and> getBendingMoment Revision_A floatVal_one example_beam (Scalar 10) ''unknown''
     = Inl (Error ''Invalid condition'')
   \<and> getShearForce Revision_A floatVal_one example_beam (Scalar 10) ''unknown''
     = Inl (Error ''Invalid condition'')"
  using unknown_condition_Invalid [where condition = "''unknown''" and r = Revision_A
      and floatVal = floatVal_one and beam = example_beam and load = "Scalar 10"]
  by (simp add: Object_prototype_def)

text \<open>
  The two registered names succeed: each operation returns the beam and the load it was
  given, with the equation of the analyzer registered under the name.
\<close>

lemma registered_condition_succeeds:
  fixes beam :: Beam and load :: Load
  shows "getDeflection r floatVal beam load ''simply-supported''
           = Inr \<lparr>beam = beam, load = load,
                  equation = simplySupported_getDeflectionEquation beam load\<rparr>
       \<and> getBendingMoment r floatVal beam load ''simply-supported''
           = Inr \<lparr>beam = beam, load = load,
                  equation = simplySupported_getBendingMomentEquation beam load\<rparr>
       \<and> getShearForce r floatVal beam load ''simply-supported''
           = Inr \<lparr>beam = beam, load = load,
                  equation = simplySupported_getShearForceEquation beam load\<rparr>
       \<and> getDeflection r floatVal beam load ''two-span-unequal''
           = Inr \<lparr>beam = beam, load = load,
                  equation = getDeflectionEquation r twoSpanUnequal beam load\<rparr>
       \<and> getBendingMoment r floatVal beam load ''two-span-unequal''
           = Inr \<lparr>beam = beam, load = load,
                  equation = twoSpanUnequal_getBendingMomentEquation beam load\<rparr>
       \<and> getShearForce r floatVal beam load ''two-span-unequal''
           = Inr \<lparr>beam = beam, load = load,
                  equation = getShearForceEquation r floatVal twoSpanUnequal beam load\<rparr>"
  by (simp add: dispatcher_defs analyzer_property_def)

lemma registered_condition_succeeds_witness:
  "getShearForce Revision_B floatVal_one example_beam (Structured example_load)
     ''two-span-unequal''
     = Inr \<lparr>beam = example_beam, load = Structured example_load,
            equation = twoSpanUnequal_getShearForceEquation_B example_beam
                         (Structured example_load)\<rparr>
   \<and> getDeflection Revision_A floatVal_one example_beam (Scalar 10) ''simply-supported''
     = Inr \<lparr>beam = example_beam, load = Scalar 10,
            equation = simplySupported_getDeflectionEquation example_beam (Scalar 10)\<rparr>"
  using registered_condition_succeeds [where r = Revision_B and floatVal = floatVal_one
      and beam = example_beam and load = "Structured example_load"]
    registered_condition_succeeds [where r = Revision_A and floatVal = floatVal_one
      and beam = example_beam and load = "Scalar 10"]
  by simp

section \<open>The simply supported analyzer: formulas\<close>

text \<open>
  Claim C2: for the simply supported condition, for every beam with primary span \<open>L\<close> and
  stiffness \<open>EI\<close>, every scalar load \<open>w\<close> and every \<open>x\<close>, the deflection evaluator returns
  \<open>y = -((w*x)/(24*EI))*(L^3 - 2*L*x^2 + x^3)*1000\<close> when \<open>0 \<le> x \<le> L\<close>, and \<open>y = 0\<close>
  otherwise. The first part is stated in the arithmetic of the code, for all numbers
  (\<open>NaN\<close> included); the second part gives the value over the reals, where \<open>EI\<close> is not zero.
\<close>

theorem simplySupported_deflection_formula:
  fixes beam :: Beam and L EI w x :: number
  assumes "primarySpan beam = L" and "EI_of beam = EI"
  shows "(\<exists>res. getDeflection r floatVal0 beam (Scalar w) ''simply-supported'' = Inr res
            \<and> equation res floatVal x
                = Inr \<lparr>x = x,
                       y = Number (if 0 \<le> x \<and> x \<le> L
                                   then - ((w * x) / (24 * EI))
                                          * (L ^ 3 - 2 * L * x ^ 2 + x ^ 3) * 1000
                                   else 0)\<rparr>)
       \<and> (\<forall>l e q t :: real. L = Num l \<and> EI = Num e \<and> w = Num q \<and> x = Num t \<and> e \<noteq> 0 \<longrightarrow>
             simplySupported_getDeflectionEquation beam (Scalar w) floatVal x
               = Inr \<lparr>x = x,
                      y = Number (Num (if 0 \<le> t \<and> t \<le> l
                                       then - ((q * t) / (24 * e))
                                              * (l ^ 3 - 2 * l * t ^ 2 + t ^ 3) * 1000
                                       else 0))\<rparr>)"
proof (intro conjI allI impI)
  show "\<exists>res. getDeflection r floatVal0 beam (Scalar w) ''simply-supported'' = Inr res
          \<and> equation res floatVal x
              = Inr \<lparr>x = x,
                     y = Number (if 0 \<le> x \<and> x \<le> L
                                 then - ((w * x) / (24 * EI))
                                        * (L ^ 3 - 2 * L * x ^ 2 + x ^ 3) * 1000
                                 else 0)\<rparr>"
    using assms
    by (simp add: getDeflection_def analyzer_property_def simplySupported_defs Let_def)
next
  fix l e q t :: real
  assume "L = Num l \<and> EI = Num e \<and> w = Num q \<and> x = Num t \<and> e \<noteq> 0"
  with assms
  show "simplySupported_getDeflectionEquation beam (Scalar w) floatVal x
          = Inr \<lparr>x = x,
                 y = Number (Num (if 0 \<le> t \<and> t \<le> l
                                  then - ((q * t) / (24 * e))
                                         * (l ^ 3 - 2 * l * t ^ 2 + t ^ 3) * 1000
                                  else 0))\<rparr>"
    by (simp add: simplySupported_defs number_simps Let_def)
qed

theorem simplySupported_deflection_formula_witness:
  "primarySpan example_beam = Num 4 \<and> EI_of example_beam = Num 5000
   \<and> (\<exists>res. getDeflection Revision_A floatVal_one example_beam (Scalar (Num 10))
               ''simply-supported'' = Inr res
          \<and> equation res floatVal_one (Num 2)
              = Inr \<lparr>x = Num 2, y = Number (Num (- (20 / 3)))\<rparr>)"
  using simplySupported_deflection_formula [where beam = example_beam and L = "Num 4"
      and EI = "Num 5000" and w = "Num 10" and x = "Num 2" and r = Revision_A
      and ?floatVal0.0 = floatVal_one and floatVal = floatVal_one]
  by (simp add: example_defs EI_of_def number_simps)



text \<open>
  Claim C8: for the simply supported condition, for every beam with primary span \<open>L\<close>,
  every scalar load \<open>w\<close> and every \<open>x\<close> strictly outside \<open>[0, L]\<close>, the deflection, the bending
  moment and the shear force evaluators each return \<open>y = 0\<close>.
\<close>

theorem simplySupported_zero_outside_span:
  fixes beam :: Beam and L x :: real and w :: number
  assumes "primarySpan beam = Num L" and "x < 0 \<or> x > L"
  shows "simplySupported_getDeflectionEquation beam (Scalar w) floatVal (Num x)
           = Inr \<lparr>x = Num x, y = Number 0\<rparr>
       \<and> simplySupported_getBendingMomentEquation beam (Scalar w) floatVal (Num x)
           = Inr \<lparr>x = Num x, y = Number 0\<rparr>
       \<and> simplySupported_getShearForceEquation beam (Scalar w) floatVal (Num x)
           = Inr \<lparr>x = Num x, y = Number 0\<rparr>"
  using assms by (auto simp add: simplySupported_defs number_simps Let_def)

theorem simplySupported_zero_outside_span_witness:
  "primarySpan example_beam = Num 4 \<and> (5::real) > 4
   \<and> simplySupported_getDeflectionEquation example_beam (Scalar 10) floatVal_one (Num 5)
       = Inr \<lparr>x = Num 5, y = Number 0\<rparr>
   \<and> simplySupported_getBendingMomentEquation example_beam (Scalar 10) floatVal_one (Num 5)
       = Inr \<lparr>x = Num 5, y = Number 0\<rparr>
   \<and> simplySupported_getShearForceEquation example_beam (Scalar 10) floatVal_one (Num 5)
       = Inr \<lparr>x = Num 5, y = Number 0\<rparr>"
  using simplySupported_zero_outside_span [where beam = example_beam and L = 4 and x = 5
      and w = 10 and floatVal = floatVal_one]
  by (simp add: example_defs number_simps)

text \<open>
  The boundary values of the specification's test section: with a stiffness that is not
  zero and a span that is not negative, deflection and bending moment vanish at both
  supports, and the shear force vanishes at midspan.
\<close>

lemma simplySupported_boundary_values:
  fixes beam :: Beam and L EI w :: real
  assumes "primarySpan beam = Num L" and "EI_of beam = Num EI" and "EI \<noteq> 0" and "0 \<le> L"
  shows "simplySupported_getDeflectionEquation beam (Scalar (Num w)) floatVal (Num 0)
           = Inr \<lparr>x = Num 0, y = Number (Num 0)\<rparr>
       \<and> simplySupported_getDeflectionEquation beam (Scalar (Num w)) floatVal (Num L)
           = Inr \<lparr>x = Num L, y = Number (Num 0)\<rparr>
       \<and> simplySupported_getBendingMomentEquation beam (Scalar (Num w)) floatVal (Num 0)
           = Inr \<lparr>x = Num 0, y = Number (Num 0)\<rparr>
       \<and> simplySupported_getBendingMomentEquation beam (Scalar (Num w)) floatVal (Num L)
           = Inr \<lparr>x = Num L, y = Number (Num 0)\<rparr>
       \<and> simplySupported_getShearForceEquation beam (Scalar (Num w)) floatVal (Num (L / 2))
           = Inr \<lparr>x = Num (L / 2), y = Number (Num 0)\<rparr>"
proof -
  have "L ^ 3 - 2 * L * L ^ 2 + L ^ 3 = 0"
    by (simp add: power_small algebra_simps)
  with assms show ?thesis
    by (simp add: simplySupported_defs number_simps Let_def)
qed

lemma simplySupported_boundary_values_witness:
  "primarySpan example_beam = Num 4 \<and> EI_of example_beam = Num 5000
   \<and> simplySupported_getDeflectionEquation example_beam (Scalar (Num 10)) floatVal_one (Num 4)
       = Inr \<lparr>x = Num 4, y = Number (Num 0)\<rparr>
   \<and> simplySupported_getShearForceEquation example_beam (Scalar (Num 10)) floatVal_one (Num 2)
       = Inr \<lparr>x = Num 2, y = Number (Num 0)\<rparr>"
  using simplySupported_boundary_values [where beam = example_beam and L = 4 and EI = 5000
      and w = 10 and floatVal = floatVal_one]
  by (simp add: example_defs EI_of_def number_simps)

section \<open>The two-span analyzer: scalar-load path\<close>



text \<open>
  Claim C3 says that the two-span deflection evaluator returns \<open>y = 0\<close> for every \<open>x\<close>
  outside \<open>[0, L1 + L2]\<close>. On the beam with two unit spans under a unit load, revision A
  returns \<open>-250/3\<close> at \<open>x = 3\<close> and at \<open>x = -1\<close>: its first guard has no lower bound and
  its second guard is \<open>L1 <= L1 + L2\<close>, which does not mention \<open>x\<close>. Revision B returns past
  the end the rounded sum \<open>R1 + R2 + R3 - w1*L1 - w2*L2\<close>, here \<open>2.00\<close> for a load whose
  reactions exceed the applied load by 2.
\<close>

theorem twoSpan_deflection_nonzero_outside:
  "twoSpanUnequal_getDeflectionEquation_A unit_beam (Scalar 1) floatVal_one (Num 3)
     = Inr \<lparr>x = Num 3, y = Number (Num (- (250 / 3)))\<rparr>
   \<and> twoSpanUnequal_getDeflectionEquation_A unit_beam (Scalar 1) floatVal_one (Num (- 1))
     = Inr \<lparr>x = Num (- 1), y = Number (Num (- (250 / 3)))\<rparr>
   \<and> twoSpanUnequal_getDeflectionEquation_B example_beam
       (Structured (example_load\<lparr>R3 := 12\<rparr>)) floatVal_one (Num 8)
     = Inr \<lparr>x = Num 8, y = Text ''2.00''\<rparr>"
proof (intro conjI)
  show "twoSpanUnequal_getDeflectionEquation_A unit_beam (Scalar 1) floatVal_one (Num 3)
          = Inr \<lparr>x = Num 3, y = Number (Num (- (250 / 3)))\<rparr>"
    by (simp add: twoSpanUnequal_defs scalar_defs EI_of_def number_simps Let_def
        example_defs power_small)
  show "twoSpanUnequal_getDeflectionEquation_A unit_beam (Scalar 1) floatVal_one (Num (- 1))
          = Inr \<lparr>x = Num (- 1), y = Number (Num (- (250 / 3)))\<rparr>"
    by (simp add: twoSpanUnequal_defs scalar_defs EI_of_def number_simps Let_def
        example_defs power_small)
  show "twoSpanUnequal_getDeflectionEquation_B example_beam
          (Structured (example_load\<lparr>R3 := 12\<rparr>)) floatVal_one (Num 8)
          = Inr \<lparr>x = Num 8, y = Text ''2.00''\<rparr>"
    by (simp add: twoSpanUnequal_defs number_simps Let_def example_defs fixed2_def
        decimal.simps digit_def)
qed

text \<open>
  Claim C4 says that the branch guarded by the chained comparison \<open>L1 < x < L\<close> of the
  scalar-load shear force evaluator is unreachable. On the example beam (\<open>L1 = 4\<close>,
  \<open>L2 = 3\<close>) the evaluator takes that branch at \<open>x = 5\<close> and returns \<open>R1 + R2 - w*x\<close>.
\<close>

theorem chained_branch_reached:
  "shear_guard_A (Num 4) (Num 3) (Num 4 + Num 3) (Num 5) = Chained
   \<and> twoSpanUnequal_getShearForceEquation_A floatVal_one example_beam (Scalar 10) floatVal_one
       (Num 5)
     = Inr \<lparr>x = Num 5,
            y = Number (shear_assign_A Chained (scalar_R1 10 4 3) (scalar_R2 10 4 3) 10 4 7 (Num 5))\<rparr>
   \<and> shear_assign_A Chained (scalar_R1 10 4 3) (scalar_R2 10 4 3) 10 4 7 (Num 5) = Num (125 / 12)"
  by (simp add: twoSpanUnequal_defs shear_guard_A_def bool_number_def scalar_defs
      number_simps Let_def example_defs power_small)

text \<open>
  Claim C4 as amended: the branch is taken exactly when \<open>x\<close> is above \<open>L1\<close>, is neither 0
  nor \<open>L2\<close>, and \<open>L1 + L2\<close> exceeds 1, since the guard compares the truth value of
  \<open>L1 < x\<close> with \<open>L\<close>; no upper bound on \<open>x\<close> comes with it. The evaluator then returns
  \<open>R1 + R2 - w*x\<close>.
\<close>

theorem chained_branch_condition:
  fixes beam :: Beam and L1 L2 w x :: real
  assumes "primarySpan beam = Num L1" and "secondarySpan beam = Num L2"
  shows "(shear_guard_A (Num L1) (Num L2) (Num L1 + Num L2) (Num x) = Chained
            \<longleftrightarrow> L1 < x \<and> x \<noteq> 0 \<and> x \<noteq> L2 \<and> 1 < L1 + L2)
       \<and> (L1 < x \<and> x \<noteq> 0 \<and> x \<noteq> L2 \<and> 1 < L1 + L2 \<longrightarrow>
            twoSpanUnequal_getShearForceEquation_A floatVal0 beam (Scalar (Num w)) floatVal (Num x)
              = Inr \<lparr>x = Num x,
                     y = Number (scalar_R1 (Num w) (Num L1) (Num L2)
                                 + scalar_R2 (Num w) (Num L1) (Num L2) - (Num w * Num x))\<rparr>)"
proof -
  have guard: "shear_guard_A (Num L1) (Num L2) (Num L1 + Num L2) (Num x) = Chained
                 \<longleftrightarrow> L1 < x \<and> x \<noteq> 0 \<and> x \<noteq> L2 \<and> 1 < L1 + L2"
    by (auto simp add: shear_guard_A_def bool_number_def number_simps)
  have "twoSpanUnequal_getShearForceEquation_A floatVal0 beam (Scalar (Num w)) floatVal (Num x)
          = Inr \<lparr>x = Num x,
                 y = Number (scalar_R1 (Num w) (Num L1) (Num L2)
                             + scalar_R2 (Num w) (Num L1) (Num L2) - (Num w * Num x))\<rparr>"
    if "L1 < x \<and> x \<noteq> 0 \<and> x \<noteq> L2 \<and> 1 < L1 + L2"
  proof -
    from that guard
    have "shear_guard_A (Num L1) (Num L2) (Num L1 + Num L2) (Num x) = Chained"
      by simp
    with assms show ?thesis
      by (simp add: twoSpanUnequal_getShearForceEquation_A_def Let_def)
  qed
  with guard show ?thesis
    by blast
qed

theorem chained_branch_condition_witness:
  "primarySpan example_beam = Num 4 \<and> secondarySpan example_beam = Num 3
   \<and> (4::real) < 100 \<and> (100::real) \<noteq> 0 \<and> (100::real) \<noteq> 3 \<and> (1::real) < 4 + 3
   \<and> shear_guard_A (Num 4) (Num 3) (Num 4 + Num 3) (Num 100) = Chained
   \<and> twoSpanUnequal_getShearForceEquation_A floatVal_one example_beam (Scalar (Num 10))
       floatVal_one (Num 100)
     = Inr \<lparr>x = Num 100, y = Number (Num (- (11275 / 12)))\<rparr>"
  using chained_branch_condition [where beam = example_beam and ?L1.0 = 4 and ?L2.0 = 3
      and w = 10 and x = 100 and ?floatVal0.0 = floatVal_one and floatVal = floatVal_one]
  by (simp add: example_defs scalar_defs number_simps Let_def power_small)

text \<open>
  The branch the chained comparison does cut off is the last one, \<open>x == L\<close>: it is taken
  only at the far end of a beam of total length at most 1.
\<close>

lemma last_branch_condition:
  fixes L1 L2 x :: real
  shows "shear_guard_A (Num L1) (Num L2) (Num L1 + Num L2) (Num x) = At_L
           \<longleftrightarrow> x = L1 + L2 \<and> 0 < L2 \<and> L1 \<noteq> 0 \<and> x \<noteq> 0 \<and> L1 + L2 \<le> 1"
  by (auto simp add: shear_guard_A_def bool_number_def number_simps)

lemma last_branch_condition_witness:
  "shear_guard_A (Num (1 / 2)) (Num (1 / 4)) (Num (1 / 2) + Num (1 / 4)) (Num (3 / 4)) = At_L
   \<and> shear_guard_A (Num 4) (Num 3) (Num 4 + Num 3) (Num 7) = Chained"
  using last_branch_condition [where ?L1.0 = "1 / 2" and ?L2.0 = "1 / 4" and x = "3 / 4"]
    last_branch_condition [where ?L1.0 = 4 and ?L2.0 = 3 and x = 7]
  by (simp add: shear_guard_A_def bool_number_def number_simps)

section \<open>The two-span analyzer: structured-load path\<close>



text \<open>
  Claim C10: in revision B the deflection evaluator is pointwise equal to the shear force
  evaluator, for every beam, every load and every \<open>x\<close>; in particular the deflection does
  not depend on the material of the beam.
\<close>

theorem deflection_B_is_shear_B:
  fixes beam :: Beam and load :: Load and x :: number
  shows "twoSpanUnequal_getDeflectionEquation_B beam load floatVal x
           = twoSpanUnequal_getShearForceEquation_B beam load floatVal' x
       \<and> twoSpanUnequal_getDeflectionEquation_B (beam\<lparr>material := m\<rparr>) load floatVal x
           = twoSpanUnequal_getDeflectionEquation_B beam load floatVal x"
  by (simp add: twoSpanUnequal_getDeflectionEquation_B_def
      twoSpanUnequal_getShearForceEquation_B_def Let_def)

theorem deflection_B_is_shear_B_witness:
  "twoSpanUnequal_getDeflectionEquation_B example_beam (Structured example_load) floatVal_one
     (Num 5)
     = Inr \<lparr>x = Num 5, y = Text ''10.00''\<rparr>
   \<and> twoSpanUnequal_getShearForceEquation_B example_beam (Structured example_load) floatVal_two
       (Num 5)
     = Inr \<lparr>x = Num 5, y = Text ''10.00''\<rparr>
   \<and> twoSpanUnequal_getDeflectionEquation_B (example_beam\<lparr>material := material unit_beam\<rparr>)
       (Structured example_load) floatVal_one (Num 5)
     = Inr \<lparr>x = Num 5, y = Text ''10.00''\<rparr>"
proof -
  have "twoSpanUnequal_getShearForceEquation_B example_beam (Structured example_load)
          floatVal_two (Num 5)
          = Inr \<lparr>x = Num 5, y = Text ''10.00''\<rparr>"
    by (simp add: twoSpanUnequal_getShearForceEquation_B_def number_simps Let_def
        example_defs fixed2_def decimal.simps digit_def)
  with deflection_B_is_shear_B [where beam = example_beam and load = "Structured example_load"
      and floatVal = floatVal_one and floatVal' = floatVal_two and x = "Num 5"
      and m = "material unit_beam"]
  show ?thesis
    by simp
qed

section \<open>Purity of the evaluators\<close>

text \<open>
  Claim C9 says that the result of every evaluator depends on the beam, the load and \<open>x\<close>
  only. The two-span deflection evaluator of revision A reads \<open>floatVal("j2")\<close> each time
  it is called: on the same beam, load and \<open>x\<close> it returns \<open>-125/24\<close> when \<open>floatVal\<close>
  gives 1 and \<open>-125/12\<close> when it gives 2.
\<close>

theorem deflection_A_depends_on_floatVal:
  "twoSpanUnequal_getDeflectionEquation_A unit_beam (Scalar 1) floatVal_one (Num (1 / 2))
     = Inr \<lparr>x = Num (1 / 2), y = Number (Num (- (125 / 24)))\<rparr>
   \<and> twoSpanUnequal_getDeflectionEquation_A unit_beam (Scalar 1) floatVal_two (Num (1 / 2))
     = Inr \<lparr>x = Num (1 / 2), y = Number (Num (- (125 / 12)))\<rparr>
   \<and> twoSpanUnequal_getDeflectionEquation_A unit_beam (Scalar 1) floatVal_one (Num (1 / 2))
     \<noteq> twoSpanUnequal_getDeflectionEquation_A unit_beam (Scalar 1) floatVal_two (Num (1 / 2))"
  by (simp add: twoSpanUnequal_defs scalar_defs EI_of_def number_simps Let_def
      example_defs power_small)

text \<open>
  Claim C9 as amended: every evaluator returned by the three operations is a function of
  the beam, the load, \<open>x\<close> and the value \<open>floatVal("j2")\<close> has when the evaluator is called.
  Apart from the two-span deflection evaluator of revision A, it does not depend on
  \<open>floatVal\<close> at all, neither when the evaluator is called nor when it is built.
\<close>

theorem evaluators_depend_on_inputs_and_j2:
  fixes beam :: Beam and load :: Load and x :: number
  shows "(getDeflection r floatVal0 beam load condition = Inr res
            \<and> floatVal ''j2'' = floatVal' ''j2''
          \<longrightarrow> equation res floatVal x = equation res floatVal' x)
       \<and> (getDeflection r floatVal0 beam load condition = Inr res
            \<and> \<not> (r = Revision_A \<and> condition = ''two-span-unequal'')
          \<longrightarrow> equation res floatVal x = equation res floatVal' x)
       \<and> (getBendingMoment r floatVal0 beam load condition = Inr res
          \<longrightarrow> equation res floatVal x = equation res floatVal' x)
       \<and> (getShearForce r floatVal0 beam load condition = Inr res
            \<and> getShearForce r floatVal0' beam load condition = Inr res'
          \<longrightarrow> equation res floatVal x = equation res' floatVal' x)"
proof (cases r)
  case Revision_A
  then show ?thesis
    by (auto simp add: dispatcher_defs analyzer_property_def simplySupported_defs
        twoSpanUnequal_defs Let_def split: if_splits)
next
  case Revision_B
  then show ?thesis
    by (auto simp add: dispatcher_defs analyzer_property_def simplySupported_defs
        twoSpanUnequal_defs Let_def split: if_splits)
qed

theorem evaluators_depend_on_inputs_and_j2_witness:
  "getDeflection Revision_A floatVal_two unit_beam (Scalar 1) ''two-span-unequal''
     = Inr example_result
   \<and> floatVal_one ''j2'' = floatVal_alt ''j2''
   \<and> floatVal_one ''k'' \<noteq> floatVal_alt ''k''
   \<and> equation example_result floatVal_one (Num (1 / 2))
     = equation example_result floatVal_alt (Num (1 / 2))"
proof -
  have built: "getDeflection Revision_A floatVal_two unit_beam (Scalar 1) ''two-span-unequal''
                 = Inr example_result"
    by (simp add: getDeflection_def analyzer_property_def example_result_def)
  have same: "floatVal_one ''j2'' = floatVal_alt ''j2''"
    by (simp add: floatVal_one_def floatVal_alt_def)
  have other: "floatVal_one ''k'' \<noteq> floatVal_alt ''k''"
    by (simp add: floatVal_one_def floatVal_alt_def zero_number_Num)
  from evaluators_depend_on_inputs_and_j2 [where r = Revision_A and ?floatVal0.0 = floatVal_two
      and beam = unit_beam and load = "Scalar 1" and condition = "''two-span-unequal''"
      and res = example_result and floatVal = floatVal_one and floatVal' = floatVal_alt
      and x = "Num (1 / 2)"] built same
  have "equation example_result floatVal_one (Num (1 / 2))
          = equation example_result floatVal_alt (Num (1 / 2))"
    by blast
  with built same other show ?thesis
    by blast
qed

end
